theory Spec2Isabelle
  imports Main
begin

section \<open>Values of the Python program\<close>

text \<open>
  The values that travel through \<^verbatim>\<open>app.py\<close> are JSON values: the inputs of the
  form (strings and booleans), the request payload, and the answers of the remote
  service. A Python \<^verbatim>\<open>dict\<close> keeps insertion order, so an object is an association
  list; its keys are meant to be distinct. Numbers are integers here; no claim reads a
  number. Characters beyond ASCII are written as their UTF-8 bytes.
\<close>

datatype json =
    JNull
  | JBool bool
  | JInt int
  | JStr string
  | JArr "json list"
  | JObj "(string \<times> json) list"

text \<open>Python's truth value of an object, as \<^verbatim>\<open>if v\<close> and \<^verbatim>\<open>not v\<close> test it.\<close>

fun truthy :: "json \<Rightarrow> bool" where
  "truthy JNull = False"
| "truthy (JBool b) = b"
| "truthy (JInt n) = (n \<noteq> 0)"
| "truthy (JStr s) = (s \<noteq> [])"
| "truthy (JArr xs) = (xs \<noteq> [])"
| "truthy (JObj kvs) = (kvs \<noteq> [])"

text \<open>The name \<^verbatim>\<open>type(v).__name__\<close>, which an \<^verbatim>\<open>AttributeError\<close> prints.\<close>

fun type_name :: "json \<Rightarrow> string" where
  "type_name JNull = ''NoneType''"
| "type_name (JBool b) = ''bool''"
| "type_name (JInt n) = ''int''"
| "type_name (JStr s) = ''str''"
| "type_name (JArr xs) = ''list''"
| "type_name (JObj kvs) = ''dict''"

text \<open>
  An exception that \<^verbatim>\<open>except Exception as e\<close> catches: \<^verbatim>\<open>str(e)\<close>, and the
  \<^verbatim>\<open>response\<close> attribute that the exceptions of \<^verbatim>\<open>requests\<close> carry. A
  \<^verbatim>\<open>Response\<close> object is true exactly when its status is below 400
  (\<^verbatim>\<open>Response.__bool__\<close> returns \<^verbatim>\<open>self.ok\<close>).
\<close>

record response =
  resp_ok :: bool
  resp_text :: string

datatype exn = Exn (exn_str: string) (exn_response: "response option")

definition quote :: string where
  "quote = [CHR 0x27]"

definition nl :: string where
  "nl = [CHR 0x0A]"

definition IndexError :: exn where
  "IndexError = Exn ''tuple index out of range'' None"

definition KeyError :: "string \<Rightarrow> exn" where
  "KeyError k = Exn (quote @ k @ quote) None"

definition AttributeError :: "json \<Rightarrow> string \<Rightarrow> exn" where
  "AttributeError v a =
     Exn (quote @ type_name v @ quote @ '' object has no attribute '' @ quote @ a @ quote) None"

definition UnboundLocalError :: "string \<Rightarrow> exn" where
  "UnboundLocalError x =
     Exn (''cannot access local variable '' @ quote @ x @ quote
          @ '' where it is not associated with a value'') None"

subsection \<open>Dictionaries\<close>

text \<open>\<^verbatim>\<open>d.get(k, default)\<close> on the items of a dict; \<^verbatim>\<open>d.get(k)\<close> has the default \<^verbatim>\<open>None\<close>.\<close>

definition dict_get :: "(string \<times> json) list \<Rightarrow> string \<Rightarrow> json \<Rightarrow> json" where
  "dict_get kvs k dflt = (case map_of kvs k of None \<Rightarrow> dflt | Some v \<Rightarrow> v)"

text \<open>\<^verbatim>\<open>{k: v for k, v in d.items() if v is not None}\<close>\<close>

definition drop_none :: "(string \<times> json) list \<Rightarrow> (string \<times> json) list" where
  "drop_none kvs = filter (\<lambda>(k, v). v \<noteq> JNull) kvs"

text \<open>\<^verbatim>\<open>**({k: v} if c else {})\<close> inside a dict display.\<close>

definition opt_entry :: "bool \<Rightarrow> string \<Rightarrow> json \<Rightarrow> (string \<times> json) list" where
  "opt_entry c k v = (if c then [(k, v)] else [])"

text \<open>\<^verbatim>\<open>d[k] = v\<close>: a key that is there keeps its place, a new one goes last.\<close>

fun dict_set :: "(string \<times> json) list \<Rightarrow> string \<Rightarrow> json \<Rightarrow> (string \<times> json) list" where
  "dict_set [] k v = [(k, v)]"
| "dict_set ((k', v') # kvs) k v =
     (if k' = k then (k, v) # kvs else (k', v') # dict_set kvs k v)"

definition keys :: "json \<Rightarrow> string set" where
  "keys d = (case d of JObj kvs \<Rightarrow> fst ` set kvs | _ \<Rightarrow> {})"

section \<open>The request payload of \<^verbatim>\<open>create_talk\<close>\<close>

text \<open>
  \<^verbatim>\<open>create_talk(*args)\<close> receives the twelve inputs of the form as a tuple:
  source\_url, script\_type, text\_input, audio\_url, voice\_provider, voice\_id,
  voice\_style, driver\_url, webhook, stitch, persist, external\_tts. The dict display
  reads \<^verbatim>\<open>args[0]\<close>, \<^verbatim>\<open>args[1]\<close>, and \<^verbatim>\<open>args[7]\<close> to \<^verbatim>\<open>args[10]\<close> whatever the
  script type is, so a tuple of fewer than eleven values raises \<^verbatim>\<open>IndexError\<close> and a
  longer one never does.
\<close>

definition provider_dict :: "json list \<Rightarrow> json" where
  "provider_dict args =
     JObj ([(''type'', args ! 4), (''voice_id'', args ! 5)]
           @ opt_entry (truthy (args ! 6)) ''voice_config'' (JObj [(''style'', args ! 6)]))"

definition script_dict :: "json list \<Rightarrow> json" where
  "script_dict args =
     JObj [(''type'', args ! 1),
           (''input'', if args ! 1 = JStr ''text'' then args ! 2 else JStr ''''),
           (''subtitles'', JStr ''false''),
           (''ssml'', JStr ''false''),
           (''provider'', if args ! 1 = JStr ''text'' then provider_dict args else JNull),
           (''audio_url'', if args ! 1 = JStr ''audio'' then args ! 3 else JNull)]"

definition config_dict :: "json list \<Rightarrow> json" where
  "config_dict args =
     JObj ([(''fluent'', JStr ''false'')]
           @ opt_entry (truthy (args ! 9)) ''stitch'' (JBool True)
           @ opt_entry (truthy (args ! 10)) ''persist'' (JBool True)
           @ opt_entry (truthy (args ! 8)) ''webhook'' (args ! 8))"

definition build_payload :: "json list \<Rightarrow> exn + json" where
  "build_payload args =
     (if length args < 11 then Inl IndexError
      else
        let payload = [(''source_url'', args ! 0),
                       (''script'', script_dict args),
                       (''config'', config_dict args)]
                      @ opt_entry (truthy (args ! 7)) ''driver_url'' (args ! 7);
            payload = drop_none payload
        in case map_of payload ''script'' of
             None \<Rightarrow> Inl (KeyError ''script'')
           | Some (JObj kvs) \<Rightarrow> Inr (JObj (dict_set payload ''script'' (JObj (drop_none kvs))))
           | Some v \<Rightarrow> Inl (AttributeError v ''items''))"

section \<open>The submission handler \<^verbatim>\<open>create_talk\<close>\<close>

text \<open>
  The generator yields tuples for the six outputs of the form: talk\_id, status,
  result\_url, video\_preview, download\_status, api\_logs. \<^verbatim>\<open>gr.Video(visible=False)\<close>
  is \<open>Video None False\<close>, and \<^verbatim>\<open>gr.Video(value=result_url, visible=True)\<close> is
  \<open>Video (Some result_url) True\<close> when the component can be built.
\<close>

datatype video = Video (video_value: "json option") (video_visible: bool)

record update =
  talk_id :: json
  status :: string
  result_url :: json
  video_preview :: video
  download_status :: string
  api_logs :: string

text \<open>
  What the handler reads from outside itself: the module's globals \<^verbatim>\<open>API_KEY\<close> and
  \<^verbatim>\<open>BASE_URL\<close>, which \<^verbatim>\<open>save_config_handler\<close> assigns; the library
  functions \<^verbatim>\<open>json.dumps(_, indent=2)\<close> and \<^verbatim>\<open>str\<close> on a value that is not a string;
  the remote service behind \<^verbatim>\<open>DIDClient\<close>, where \<open>Inl\<close> is the exception that
  \<^verbatim>\<open>requests\<close>, \<^verbatim>\<open>raise_for_status\<close> or \<^verbatim>\<open>response.json()\<close> raised, and the answer to
  \<^verbatim>\<open>get_talk\<close> depends on the id and on how many calls came before; the exception,
  if any, that \<^verbatim>\<open>gr.Video(value=result_url, visible=True)\<close> raises for a result url,
  since the component handles the value it is given when it is built, inside the
  \<^verbatim>\<open>try\<close> and before the \<^verbatim>\<open>yield\<close>; and the clock.
  Time is counted in milliseconds since \<^verbatim>\<open>start_time\<close>. \<open>lag E i\<close> is the time that
  iteration \<open>i\<close> of the loop takes besides its \<^verbatim>\<open>time.sleep(poll_interval)\<close>: the
  \<^verbatim>\<open>get_talk\<close> request, which is sent without a timeout, the consumer's work at the
  \<^verbatim>\<open>yield\<close>, and any oversleeping.
\<close>

record globals =
  API_KEY :: json
  BASE_URL :: json

record env =
  globals :: globals
  json_dumps :: "json \<Rightarrow> string"
  str_of :: "json \<Rightarrow> string"
  post_talks :: "json \<Rightarrow> exn + json"
  get_talks :: "json \<Rightarrow> nat \<Rightarrow> exn + json"
  video_error :: "json \<Rightarrow> exn option"
  lag :: "nat \<Rightarrow> nat"

text \<open>\<^verbatim>\<open>f"{v}"\<close>\<close>

definition format :: "env \<Rightarrow> json \<Rightarrow> string" where
  "format E v = (case v of JStr s \<Rightarrow> s | _ \<Rightarrow> str_of E v)"

definition timeout :: nat where
  "timeout = 300"

definition poll_interval :: nat where
  "poll_interval = 2"

definition ms :: "nat \<Rightarrow> nat" where
  "ms seconds = 1000 * seconds"

definition no_key_update :: update where
  "no_key_update =
     \<lparr>talk_id = JStr '''', status = ''Error: No API key'', result_url = JStr '''',
      video_preview = Video None False, download_status = '''',
      api_logs = ''Configure API key first''\<rparr>"

definition failed_update :: "string \<Rightarrow> update" where
  "failed_update response_log =
     \<lparr>talk_id = JStr '''', status = ''Failed'', result_url = JStr '''',
      video_preview = Video None False, download_status = '''', api_logs = response_log\<rparr>"

definition status_update :: "env \<Rightarrow> json \<Rightarrow> json \<Rightarrow> json \<Rightarrow> string \<Rightarrow> update" where
  "status_update E tid current_status url response_log =
     \<lparr>talk_id = tid, status = ''Status: '' @ format E current_status, result_url = url,
      video_preview = Video None False, download_status = '''', api_logs = response_log\<rparr>"

definition success_update :: "json \<Rightarrow> json \<Rightarrow> string \<Rightarrow> update" where
  "success_update tid url response_log =
     \<lparr>talk_id = tid, status = ''Completed successfully'', result_url = url,
      video_preview = Video (Some url) True, download_status = '''', api_logs = response_log\<rparr>"

definition final_update :: "env \<Rightarrow> json \<Rightarrow> json \<Rightarrow> string \<Rightarrow> update" where
  "final_update E tid current_status response_log =
     \<lparr>talk_id = tid,
      status = ''Processing timed out or failed (status: '' @ format E current_status @ '')'',
      result_url = JStr '''', video_preview = Video None False, download_status = '''',
      api_logs = response_log\<rparr>"

definition error_msg :: "exn \<Rightarrow> string" where
  "error_msg e =
     ''Error: '' @ exn_str e
     @ (case exn_response e of
          None \<Rightarrow> ''''
        | Some r \<Rightarrow> if resp_ok r then nl @ ''API Response:'' @ nl @ resp_text r else '''')"

definition error_update :: "exn \<Rightarrow> update" where
  "error_update e =
     \<lparr>talk_id = JStr '''', status = ''Error'', result_url = JStr '''',
      video_preview = Video None False, download_status = '''', api_logs = error_msg e\<rparr>"

text \<open>
  One pass through the body of the \<^verbatim>\<open>while\<close> loop, up to the point where it
  returns, breaks, goes to sleep or raises: the \<open>i\<close>-th call of \<^verbatim>\<open>get_talk\<close>, the
  update that is always yielded, and the test of \<^verbatim>\<open>current_status\<close>. \<open>Raised us e\<close>
  is a pass that yields \<open>us\<close> and then raises \<open>e\<close>: nothing is yielded when the call
  or \<^verbatim>\<open>.get\<close> fails, the update of the status is when the video of the result cannot
  be built.
\<close>

datatype step =
    Raised "update list" exn
  | Returned "update list"
  | Break update json string
  | Sleep update json string

definition poll_step :: "env \<Rightarrow> json \<Rightarrow> nat \<Rightarrow> string \<Rightarrow> step" where
  "poll_step E tid i response_log =
     (case get_talks E tid i of
        Inl e \<Rightarrow> Raised [] e
      | Inr (JObj talk_status) \<Rightarrow>
          let current_status = dict_get talk_status ''status'' (JStr ''unknown'');
              response_log = response_log @ nl @ nl @ ''Polling Response (''
                @ format E current_status @ ''):'' @ nl @ json_dumps E (JObj talk_status);
              u = status_update E tid current_status
                    (dict_get talk_status ''result_url'' (JStr '''')) response_log
          in if current_status = JStr ''done'' then
               let url = dict_get talk_status ''result_url'' JNull
               in if truthy url then
                    (case video_error E url of
                       None \<Rightarrow> Returned [u, success_update tid url response_log]
                     | Some e \<Rightarrow> Raised [u] e)
                  else Break u current_status response_log
             else if current_status \<in> set [JStr ''failed'', JStr ''error''] then
               Break u current_status response_log
             else Sleep u current_status response_log
      | Inr v \<Rightarrow> Raised [] (AttributeError v ''get''))"

text \<open>
  The run of the generator's \<^verbatim>\<open>try\<close> block: the updates yielded in order, the
  exception that ended it if one did, the number of \<^verbatim>\<open>get_talk\<close> calls made, and the
  time since \<^verbatim>\<open>start_time\<close> at which it ended.
\<close>

record run =
  yields :: "update list"
  raised :: "exn option"
  polls :: nat
  finish :: nat

text \<open>
  The \<^verbatim>\<open>while\<close> loop and the \<^verbatim>\<open>yield\<close> after it, from the test of the loop condition
  at time \<open>t\<close> with \<open>i\<close> calls of \<^verbatim>\<open>get_talk\<close> made. \<^verbatim>\<open>current_status\<close> is unbound
  until the body has run once.
\<close>

function poll_loop :: "env \<Rightarrow> json \<Rightarrow> nat \<Rightarrow> nat \<Rightarrow> string \<Rightarrow> json option \<Rightarrow> run" where
  "poll_loop E tid t i response_log current_status =
     (if t < ms timeout then
        (case poll_step E tid i response_log of
           Raised us e \<Rightarrow> \<lparr>yields = us, raised = Some e, polls = Suc i, finish = t + lag E i\<rparr>
         | Returned us \<Rightarrow> \<lparr>yields = us, raised = None, polls = Suc i, finish = t + lag E i\<rparr>
         | Break u cs lg \<Rightarrow>
             \<lparr>yields = [u, final_update E tid cs lg], raised = None, polls = Suc i,
              finish = t + lag E i\<rparr>
         | Sleep u cs lg \<Rightarrow>
             (let r = poll_loop E tid (t + lag E i + ms poll_interval) (Suc i) lg (Some cs)
              in r\<lparr>yields := u # yields r\<rparr>))
      else
        (case current_status of
           None \<Rightarrow> \<lparr>yields = [], raised = Some (UnboundLocalError ''current_status''),
                    polls = i, finish = t\<rparr>
         | Some cs \<Rightarrow> \<lparr>yields = [final_update E tid cs response_log], raised = None,
                       polls = i, finish = t\<rparr>))"
  by pat_completeness auto
termination
  by (relation "measure (\<lambda>(E, tid, t, i, lg, cs). ms timeout - t)")
     (auto simp: ms_def poll_interval_def)

definition talk_body :: "env \<Rightarrow> json list \<Rightarrow> run" where
  "talk_body E args =
     (if \<not> truthy (API_KEY (globals E)) then
        \<lparr>yields = [no_key_update], raised = None, polls = 0, finish = 0\<rparr>
      else
        case build_payload args of
          Inl e \<Rightarrow> \<lparr>yields = [], raised = Some e, polls = 0, finish = 0\<rparr>
        | Inr payload \<Rightarrow>
            (case post_talks E payload of
               Inl e \<Rightarrow> \<lparr>yields = [], raised = Some e, polls = 0, finish = 0\<rparr>
             | Inr talk \<Rightarrow>
                 let response_log = ''Creation Response:'' @ nl @ json_dumps E talk
                 in case talk of
                      JObj kvs \<Rightarrow>
                        if \<not> truthy (dict_get kvs ''id'' JNull) then
                          \<lparr>yields = [failed_update response_log], raised = None, polls = 0,
                           finish = 0\<rparr>
                        else poll_loop E (dict_get kvs ''id'' JNull) 0 0 response_log None
                    | v \<Rightarrow> \<lparr>yields = [], raised = Some (AttributeError v ''get''), polls = 0,
                            finish = 0\<rparr>))"

text \<open>The generator as a whole: \<^verbatim>\<open>except Exception as e\<close> yields one more update.\<close>

definition create_talk :: "env \<Rightarrow> json list \<Rightarrow> run" where
  "create_talk E args =
     (let r = talk_body E args
      in case raised r of
           None \<Rightarrow> r
         | Some e \<Rightarrow> r\<lparr>yields := yields r @ [error_update e], raised := None\<rparr>)"


subsection \<open>Reading a run\<close>

text \<open>
  What the \<open>i\<close>-th answer of \<^verbatim>\<open>get_talk\<close> says, in the words of the handler: the
  status it reports (\<^verbatim>\<open>talk_status.get("status", "unknown")\<close>), the result url
  (\<^verbatim>\<open>talk_status.get("result_url")\<close>), and the exception a call ends in, which is the
  one the client raised or the \<^verbatim>\<open>AttributeError\<close> of \<^verbatim>\<open>.get\<close> on an answer that is
  not a dict.
\<close>

definition status_of :: "exn + json \<Rightarrow> json option" where
  "status_of r =
     (case r of
        Inr (JObj kvs) \<Rightarrow> Some (dict_get kvs ''status'' (JStr ''unknown''))
      | _ \<Rightarrow> None)"

definition url_of :: "exn + json \<Rightarrow> json" where
  "url_of r = (case r of Inr (JObj kvs) \<Rightarrow> dict_get kvs ''result_url'' JNull | _ \<Rightarrow> JNull)"

definition failure_of :: "exn + json \<Rightarrow> exn option" where
  "failure_of r =
     (case r of
        Inl e \<Rightarrow> Some e
      | Inr (JObj kvs) \<Rightarrow> None
      | Inr v \<Rightarrow> Some (AttributeError v ''get''))"

text \<open>
  The handler got an id for the job: the key is set, the payload was built, and
  \<^verbatim>\<open>client.create_talk\<close> answered with a dict whose \<^verbatim>\<open>id\<close> is true.
\<close>

definition submitted :: "env \<Rightarrow> json list \<Rightarrow> json \<Rightarrow> bool" where
  "submitted E args tid \<longleftrightarrow>
     truthy (API_KEY (globals E))
     \<and> (case build_payload args of
          Inl e \<Rightarrow> False
        | Inr payload \<Rightarrow>
            (case post_talks E payload of
               Inr (JObj kvs) \<Rightarrow>
                 truthy (dict_get kvs ''id'' JNull) \<and> tid = dict_get kvs ''id'' JNull
             | _ \<Rightarrow> False))"

text \<open>
  The status texts with which the generator ends: the five \<^verbatim>\<open>yield\<close> statements
  that are followed by the end of the generator. The update of the loop has a status
  that starts with \<^verbatim>\<open>Status: \<close>.
\<close>

definition terminal :: "update \<Rightarrow> bool" where
  "terminal u \<longleftrightarrow>
     status u \<in> set [''Error: No API key'', ''Failed'', ''Completed successfully'', ''Error'']
     \<or> take 40 (status u) = ''Processing timed out or failed (status: ''"

text \<open>The value under a path of keys in nested dicts.\<close>

fun lookup :: "json \<Rightarrow> string list \<Rightarrow> json option" where
  "lookup v [] = Some v"
| "lookup (JObj kvs) (k # ks) =
     (case map_of kvs k of None \<Rightarrow> None | Some v \<Rightarrow> lookup v ks)"
| "lookup v (k # ks) = None"

section \<open>The result fetcher \<^verbatim>\<open>download_video\<close>\<close>

text \<open>
  The file system is a map from paths to contents. The host gives what the function
  reads from outside: \<^verbatim>\<open>int(time.time())\<close>, the separator of \<^verbatim>\<open>os.path.join\<close>, and the
  exception, if any, with which \<^verbatim>\<open>os.makedirs\<close>, \<^verbatim>\<open>requests.get\<close>, \<^verbatim>\<open>open\<close>, the
  \<open>k\<close>-th \<^verbatim>\<open>f.write\<close> and \<^verbatim>\<open>os.remove\<close> fail. Of a response the function uses
  \<^verbatim>\<open>raise_for_status()\<close>, the conversion of the \<^verbatim>\<open>content-length\<close> header by \<^verbatim>\<open>int\<close>,
  and \<^verbatim>\<open>iter_content\<close>, whose list of chunks ends where the body ends or at the
  exception that breaks the stream. Closing the file does not fail.
\<close>

type_synonym files = "string \<rightharpoonup> string"

record http_response =
  status_error :: "exn option"
  content_length_error :: "exn option"
  chunks :: "(exn + string) list"

record host =
  clock :: nat
  sep :: string
  makedirs_error :: "exn option"
  http_get :: "string \<Rightarrow> exn + http_response"
  open_error :: "exn option"
  write_error :: "nat \<Rightarrow> exn option"
  remove_error :: "exn option"

definition cross_mark :: string where
  "cross_mark = [CHR 0xE2, CHR 0x9D, CHR 0x8C]"

definition check_mark :: string where
  "check_mark = [CHR 0xE2, CHR 0x9C, CHR 0x85]"

definition startswith :: "string \<Rightarrow> string \<Rightarrow> bool" where
  "startswith s p \<longleftrightarrow> take (length p) s = p"

text \<open>\<^verbatim>\<open>str(n)\<close> of a natural number.\<close>

function str_nat :: "nat \<Rightarrow> string" where
  "str_nat n =
     (if n < 10 then [''0123456789'' ! n]
      else str_nat (n div 10) @ [''0123456789'' ! (n mod 10)])"
  by pat_completeness auto
termination
  by (relation "measure (\<lambda>n. n)") auto

definition filename :: "host \<Rightarrow> string" where
  "filename H = ''d-id_videos'' @ sep H @ ''video_'' @ str_nat (clock H) @ ''.mp4''"

text \<open>
  The \<^verbatim>\<open>for chunk in r.iter_content(chunk_size=8192)\<close> loop, with \<open>k\<close> writes done;
  an empty chunk is skipped.
\<close>

fun write_chunks ::
  "host \<Rightarrow> string \<Rightarrow> (exn + string) list \<Rightarrow> nat \<Rightarrow> files \<Rightarrow> exn option \<times> files" where
  "write_chunks H f [] k fs = (None, fs)"
| "write_chunks H f (Inl e # cs) k fs = (Some e, fs)"
| "write_chunks H f (Inr chunk # cs) k fs =
     (if chunk = [] then write_chunks H f cs k fs
      else case write_error H k of
             Some e \<Rightarrow> (Some e, fs)
           | None \<Rightarrow>
               write_chunks H f cs (Suc k)
                 (fs(f \<mapsto> (case fs f of None \<Rightarrow> chunk | Some written \<Rightarrow> written @ chunk))))"

text \<open>The \<^verbatim>\<open>try\<close> block: the exception that ended it, if any, and the files after it.\<close>

definition fetch :: "host \<Rightarrow> files \<Rightarrow> string \<Rightarrow> exn option \<times> files" where
  "fetch H fs url =
     (case http_get H url of
        Inl e \<Rightarrow> (Some e, fs)
      | Inr r \<Rightarrow>
          (case status_error r of
             Some e \<Rightarrow> (Some e, fs)
           | None \<Rightarrow>
               (case content_length_error r of
                  Some e \<Rightarrow> (Some e, fs)
                | None \<Rightarrow>
                    (case open_error H of
                       Some e \<Rightarrow> (Some e, fs)
                     | None \<Rightarrow>
                         write_chunks H (filename H) (chunks r) 0
                           (fs(filename H \<mapsto> ''''))))))"

text \<open>
  The result is the pair that the function returns, or \<open>Inl\<close> the exception that leaves
  it: \<^verbatim>\<open>os.makedirs\<close> stands before the \<^verbatim>\<open>try\<close>, \<^verbatim>\<open>os.remove\<close> inside the handler.
\<close>

definition download_video ::
  "host \<Rightarrow> files \<Rightarrow> string \<Rightarrow> (exn + string option \<times> string) \<times> files" where
  "download_video H fs url =
     (if \<not> (startswith url ''http://'' \<or> startswith url ''https://'') then
        (Inr (None, cross_mark @ '' Invalid URL''), fs)
      else
        case makedirs_error H of
          Some e \<Rightarrow> (Inl e, fs)
        | None \<Rightarrow>
            (case fetch H fs url of
               (None, fs') \<Rightarrow>
                 (Inr (Some (filename H), check_mark @ '' Downloaded successfully''), fs')
             | (Some e, fs') \<Rightarrow>
                 if fs' (filename H) \<noteq> None then
                   (case remove_error H of
                      Some e' \<Rightarrow> (Inl e', fs')
                    | None \<Rightarrow>
                        (Inr (None, cross_mark @ '' Download failed: '' @ exn_str e),
                         fs'((filename H) := None)))
                 else (Inr (None, cross_mark @ '' Download failed: '' @ exn_str e), fs')))"

definition example_host :: "(exn + string) list \<Rightarrow> host" where
  "example_host body =
     \<lparr>clock = 1700000000, sep = ''/'', makedirs_error = None,
      http_get =
        (\<lambda>url. Inr \<lparr>status_error = None, content_length_error = None, chunks = body\<rparr>),
      open_error = None, write_error = (\<lambda>k. None), remove_error = None\<rparr>"

section \<open>The configuration file\<close>

text \<open>
  \<^verbatim>\<open>save_config_handler\<close> writes \<^verbatim>\<open>{"key": key, "url": url}\<close> to \<^verbatim>\<open>CONFIG_PATH\<close> with
  \<^verbatim>\<open>json.dump\<close> and assigns the two globals; \<^verbatim>\<open>load_config\<close> reads the file with
  \<^verbatim>\<open>json.load\<close>. The two library functions, the path, and the exceptions of \<^verbatim>\<open>open\<close>
  for writing and of \<^verbatim>\<open>json.dump\<close> (with the number of characters written before it)
  come from outside. A file that is not there makes \<^verbatim>\<open>open\<close> for reading raise.
  Both functions catch every exception; \<^verbatim>\<open>load_config\<close> also prints it, which is left
  out.
\<close>

record config_io =
  CONFIG_PATH :: string
  json_dump :: "json \<Rightarrow> string"
  json_load :: "string \<Rightarrow> exn + json"
  open_write_error :: "exn option"
  dump_error :: "(exn \<times> nat) option"

definition default_config :: json where
  "default_config = JObj [(''key'', JStr ''''), (''url'', JStr ''https://api.d-id.com'')]"

definition load_config :: "config_io \<Rightarrow> files \<Rightarrow> json" where
  "load_config C fs =
     (case fs (CONFIG_PATH C) of
        None \<Rightarrow> default_config
      | Some s \<Rightarrow> (case json_load C s of Inl e \<Rightarrow> default_config | Inr config \<Rightarrow> config))"

text \<open>The Markdown of the status line, with the green or the red circle.\<close>

definition api_status :: "bool \<Rightarrow> string" where
  "api_status connected =
     ''**API Status:**  '' @ nl
     @ (if connected then [CHR 0xF0, CHR 0x9F, CHR 0x9F, CHR 0xA2] @ '' Connected''
        else [CHR 0xF0, CHR 0x9F, CHR 0x94, CHR 0xB4] @ '' Not Configured'')"

definition save_config_handler ::
  "config_io \<Rightarrow> files \<times> globals \<Rightarrow> string \<Rightarrow> string \<Rightarrow> (string \<times> string) \<times> files \<times> globals" where
  "save_config_handler C st key url =
     (let (fs, g) = st;
          config = JObj [(''key'', JStr key), (''url'', JStr url)]
      in case open_write_error C of
           Some e \<Rightarrow>
             ((cross_mark @ '' Error saving config: '' @ exn_str e,
               api_status (truthy (API_KEY g))), fs, g)
         | None \<Rightarrow>
             (case dump_error C of
                Some (e, n) \<Rightarrow>
                  ((cross_mark @ '' Error saving config: '' @ exn_str e,
                    api_status (truthy (API_KEY g))),
                   fs(CONFIG_PATH C \<mapsto> take n (json_dump C config)), g)
              | None \<Rightarrow>
                  ((check_mark @ '' Config saved! Restart app to apply changes'',
                    api_status (key \<noteq> '''')),
                   fs(CONFIG_PATH C \<mapsto> json_dump C config),
                   \<lparr>API_KEY = JStr key, BASE_URL = JStr url\<rparr>)))"

text \<open>
  A library that writes the one config of the example as Python does and reads that text
  back.
\<close>

definition example_text :: string where
  \<open>example_text = ''{"key": "k1", "url": "https://api.d-id.com"}''\<close>

definition example_io :: config_io where
  "example_io =
     \<lparr>CONFIG_PATH = ''/app/api_config.json'',
      json_dump = (\<lambda>v. example_text),
      json_load =
        (\<lambda>s. if s = example_text
             then Inr (JObj [(''key'', JStr ''k1''), (''url'', JStr ''https://api.d-id.com'')])
             else Inl (Exn ''Expecting value: line 1 column 1 (char 0)'' None)),
      open_write_error = None, dump_error = None\<rparr>"

section \<open>The text of \<^verbatim>\<open>json.dumps\<close>\<close>

text \<open>
  What \<^verbatim>\<open>json.dumps(v, indent=2)\<close> prints, for the concrete runs below: items one to a line,
  two spaces for each level, \<^verbatim>\<open>", "\<close> replaced by a comma and a line break, \<^verbatim>\<open>": "\<close>
  after a key, and a string between double quotes with the escapes of
  \<^verbatim>\<open>ensure_ascii\<close>. It is exact for strings of ASCII characters: beyond ASCII a
  character of Python is several characters here.
\<close>

definition str_int :: "int \<Rightarrow> string" where
  "str_int n = (if n < 0 then ''-'' @ str_nat (nat (- n)) else str_nat (nat n))"

definition escape :: "char \<Rightarrow> string" where
  "escape c =
     (if c = CHR 0x22 then [CHR 0x5C, CHR 0x22]
      else if c = CHR 0x5C then [CHR 0x5C, CHR 0x5C]
      else if c = CHR 0x0A then [CHR 0x5C, CHR ''n'']
      else if c = CHR 0x0D then [CHR 0x5C, CHR ''r'']
      else if c = CHR 0x09 then [CHR 0x5C, CHR ''t'']
      else if c = CHR 0x08 then [CHR 0x5C, CHR ''b'']
      else if c = CHR 0x0C then [CHR 0x5C, CHR ''f'']
      else if 32 \<le> (of_char c :: nat) \<and> (of_char c :: nat) \<le> 126 then [c]
      else [CHR 0x5C, CHR ''u'', CHR ''0'', CHR ''0'',
            ''0123456789abcdef'' ! ((of_char c :: nat) div 16),
            ''0123456789abcdef'' ! ((of_char c :: nat) mod 16)])"

definition str_repr :: "string \<Rightarrow> string" where
  "str_repr s = [CHR 0x22] @ concat (map escape s) @ [CHR 0x22]"

fun join :: "string \<Rightarrow> string list \<Rightarrow> string" where
  "join s [] = []"
| "join s [x] = x"
| "join s (x # y # ys) = x @ s @ join s (y # ys)"

fun spaces :: "nat \<Rightarrow> string" where
  "spaces 0 = []"
| "spaces (Suc level) = ''  '' @ spaces level"

definition indent :: "nat \<Rightarrow> string" where
  "indent level = nl @ spaces level"

fun dumps :: "nat \<Rightarrow> json \<Rightarrow> string" where
  "dumps level JNull = ''null''"
| "dumps level (JBool b) = (if b then ''true'' else ''false'')"
| "dumps level (JInt n) = str_int n"
| "dumps level (JStr s) = str_repr s"
| "dumps level (JArr xs) =
     (if xs = [] then ''[]''
      else ''['' @ indent (Suc level)
           @ join ('','' @ indent (Suc level)) (map (dumps (Suc level)) xs)
           @ indent level @ '']'')"
| "dumps level (JObj kvs) =
     (if kvs = [] then ''{}''
      else ''{'' @ indent (Suc level)
           @ join ('','' @ indent (Suc level))
               (map (\<lambda>(k, v). str_repr k @ '': '' @ dumps (Suc level) v) kvs)
           @ indent level @ ''}'')"

definition unauthorized_text :: string where
  \<open>unauthorized_text = ''{'' @ nl @ ''  "message": "Unauthorized"'' @ nl @ ''}''\<close>

text \<open>
  \<^verbatim>\<open>str(v)\<close> of \<^verbatim>\<open>None\<close>, a boolean or an integer; the concrete runs format nothing
  else besides strings.
\<close>

definition str_atom :: "json \<Rightarrow> string" where
  "str_atom v =
     (case v of
        JNull \<Rightarrow> ''None''
      | JBool b \<Rightarrow> (if b then ''True'' else ''False'')
      | JInt n \<Rightarrow> str_int n
      | _ \<Rightarrow> '''')"

section \<open>Concrete runs\<close>

text \<open>
  The form with its default values (script type \<^verbatim>\<open>text\<close>, nothing optional set), and a
  service that answers \<^verbatim>\<open>create_talk\<close> with \<open>made\<close> and the \<open>i\<close>-th \<^verbatim>\<open>get_talk\<close>
  with the \<open>i\<close>-th answer of a list, repeating the last one; the video of a result can
  be built; every iteration takes \<open>d\<close> milliseconds besides its sleep.
\<close>

definition example_args :: "json list" where
  "example_args =
     [JStr ''https://x/a.jpg'', JStr ''text'', JStr ''Hi'', JStr '''', JStr ''microsoft'',
      JStr ''en-US-JennyNeural'', JStr '''', JStr '''', JStr '''', JBool False, JBool False,
      JStr '''']"

definition example_payload :: json where
  "example_payload =
     JObj [(''source_url'', JStr ''https://x/a.jpg''),
           (''script'',
            JObj [(''type'', JStr ''text''), (''input'', JStr ''Hi''),
                  (''subtitles'', JStr ''false''), (''ssml'', JStr ''false''),
                  (''provider'',
                   JObj [(''type'', JStr ''microsoft''),
                         (''voice_id'', JStr ''en-US-JennyNeural'')])]),
           (''config'', JObj [(''fluent'', JStr ''false'')])]"

definition example_env :: "exn + json \<Rightarrow> (exn + json) list \<Rightarrow> nat \<Rightarrow> env" where
  "example_env made answers d =
     \<lparr>globals = \<lparr>API_KEY = JStr ''key'', BASE_URL = JStr ''https://api.d-id.com''\<rparr>,
      json_dumps = dumps 0, str_of = str_atom,
      post_talks = (\<lambda>payload. made),
      get_talks = (\<lambda>tid i. answers ! min i (length answers - 1)),
      video_error = (\<lambda>url. None),
      lag = (\<lambda>i. d)\<rparr>"

definition created :: "exn + json" where
  "created = Inr (JObj [(''id'', JStr ''tlk_1'')])"

definition answer :: "string \<Rightarrow> exn + json" where
  "answer s = Inr (JObj [(''status'', JStr s)])"

definition answer_done :: "exn + json" where
  "answer_done =
     Inr (JObj [(''status'', JStr ''done''), (''result_url'', JStr ''https://x/out.mp4'')])"

section \<open>Properties of the poll loop\<close>

text \<open>
  The loop function is unfolded by hand, one lemma for each way a pass through the
  \<^verbatim>\<open>while\<close> loop can end; the properties then follow the recursion of the loop.
\<close>

lemma loop_expired:
  "\<not> t < ms timeout \<Longrightarrow> poll_loop E tid t i lg cs =
     (case cs of
        None \<Rightarrow> \<lparr>yields = [], raised = Some (UnboundLocalError ''current_status''), polls = i, finish = t\<rparr>
      | Some c \<Rightarrow> \<lparr>yields = [final_update E tid c lg], raised = None, polls = i, finish = t\<rparr>)"
  by simp

lemma loop_raised:
  "t < ms timeout \<Longrightarrow> poll_step E tid i lg = Raised us e \<Longrightarrow>
   poll_loop E tid t i lg cs = \<lparr>yields = us, raised = Some e, polls = Suc i, finish = t + lag E i\<rparr>"
  by simp

lemma loop_returned:
  "t < ms timeout \<Longrightarrow> poll_step E tid i lg = Returned us \<Longrightarrow>
   poll_loop E tid t i lg cs = \<lparr>yields = us, raised = None, polls = Suc i, finish = t + lag E i\<rparr>"
  by simp

lemma loop_break:
  "t < ms timeout \<Longrightarrow> poll_step E tid i lg = Break u c lg' \<Longrightarrow>
   poll_loop E tid t i lg cs =
     \<lparr>yields = [u, final_update E tid c lg'], raised = None, polls = Suc i, finish = t + lag E i\<rparr>"
  by simp

lemma loop_sleep:
  "t < ms timeout \<Longrightarrow> poll_step E tid i lg = Sleep u c lg' \<Longrightarrow>
   poll_loop E tid t i lg cs =
     (poll_loop E tid (t + lag E i + ms poll_interval) (Suc i) lg' (Some c))
       \<lparr>yields := u # yields (poll_loop E tid (t + lag E i + ms poll_interval) (Suc i) lg' (Some c))\<rparr>"
  by (simp add: Let_def)

declare poll_loop.simps [simp del]

lemmas step_defs =
  poll_step_def status_of_def url_of_def failure_of_def Let_def terminal_def status_update_def

lemma step_failure:
  "failure_of (get_talks E tid i) = Some e \<Longrightarrow> poll_step E tid i lg = Raised [] e"
  by (auto simp: poll_step_def failure_of_def split: sum.splits json.splits)

lemma step_raised:
  "poll_step E tid i lg = Raised us e \<Longrightarrow>
     us = [] \<and> failure_of (get_talks E tid i) = Some e
     \<or> status_of (get_talks E tid i) = Some (JStr ''done'')
       \<and> truthy (url_of (get_talks E tid i))
       \<and> video_error E (url_of (get_talks E tid i)) = Some e
       \<and> (\<exists>u. us = [u] \<and> \<not> terminal u)"
  by (auto simp: step_defs split: sum.splits json.splits if_splits option.splits)

lemma step_returned:
  "poll_step E tid i lg = Returned us \<Longrightarrow>
     status_of (get_talks E tid i) = Some (JStr ''done'') \<and> truthy (url_of (get_talks E tid i))
     \<and> video_error E (url_of (get_talks E tid i)) = None
     \<and> (\<exists>u lg'. us = [u, success_update tid (url_of (get_talks E tid i)) lg'] \<and> \<not> terminal u)"
  by (auto simp: step_defs split: sum.splits json.splits if_splits option.splits)

lemma step_break:
  "poll_step E tid i lg = Break u c lg' \<Longrightarrow>
     status_of (get_talks E tid i) = Some c \<and> \<not> terminal u
     \<and> (c = JStr ''done'' \<and> \<not> truthy (url_of (get_talks E tid i)) \<or> c = JStr ''failed'' \<or> c = JStr ''error'')"
  by (auto simp: step_defs split: sum.splits json.splits if_splits option.splits)

lemma step_sleep:
  "poll_step E tid i lg = Sleep u c lg' \<Longrightarrow>
     status_of (get_talks E tid i) = Some c \<and> \<not> terminal u
     \<and> c \<noteq> JStr ''done'' \<and> c \<noteq> JStr ''failed'' \<and> c \<noteq> JStr ''error''"
  by (auto simp: step_defs split: sum.splits json.splits if_splits option.splits)

lemma status_no_failure: "status_of r = Some c \<Longrightarrow> failure_of r = None"
  by (auto simp: status_of_def failure_of_def split: sum.splits json.splits)

lemma polls_ge: "i \<le> polls (poll_loop E tid t i lg cs)"
proof (induction E tid t i lg cs rule: poll_loop.induct)
  case (1 E tid t i lg cs)
  show ?case
  proof (cases "t < ms timeout")
    case False
    then show ?thesis by (simp add: loop_expired split: option.splits)
  next
    case True
    show ?thesis
    proof (cases "poll_step E tid i lg")
      case (Sleep u c lg')
      from "1.IH" [OF True Sleep] True Sleep show ?thesis
        by (simp add: loop_sleep)
    qed (use True in \<open>simp_all add: loop_raised loop_returned loop_break\<close>)
  qed
qed

lemma loop_done:
  assumes "i \<le> n" and "n < polls (poll_loop E tid t i lg cs)"
    and "status_of (get_talks E tid n) = Some (JStr ''done'')"
    and "truthy (url_of (get_talks E tid n))"
  shows "polls (poll_loop E tid t i lg cs) = Suc n
     \<and> yields (poll_loop E tid t i lg cs) \<noteq> []
     \<and> raised (poll_loop E tid t i lg cs) = video_error E (url_of (get_talks E tid n))
     \<and> (video_error E (url_of (get_talks E tid n)) = None \<longrightarrow>
          (\<exists>lg'. last (yields (poll_loop E tid t i lg cs))
                = success_update tid (url_of (get_talks E tid n)) lg'))"
  using assms
proof (induction E tid t i lg cs rule: poll_loop.induct)
  case (1 E tid t i lg cs)
  show ?case
  proof (cases "t < ms timeout")
    case False
    with "1.prems" show ?thesis by (simp add: loop_expired split: option.splits)
  next
    case True
    show ?thesis
    proof (cases "poll_step E tid i lg")
      case (Raised us e)
      with True "1.prems" have "n = i" by (simp add: loop_raised)
      with step_raised [OF Raised] status_no_failure [OF "1.prems"(3)] True Raised show ?thesis
        by (auto simp: loop_raised)
    next
      case (Returned us)
      with True "1.prems" have "n = i" by (simp add: loop_returned)
      with step_returned [OF Returned] True Returned show ?thesis
        by (auto simp: loop_returned)
    next
      case (Break u c lg')
      with True "1.prems" have "n = i" by (simp add: loop_break)
      with step_break [OF Break] "1.prems" show ?thesis by auto
    next
      case (Sleep u c lg')
      have "n \<noteq> i" using step_sleep [OF Sleep] "1.prems" by auto
      with "1.prems" have "Suc i \<le> n" by simp
      with "1.IH" [OF True Sleep] "1.prems" True Sleep show ?thesis
        by (simp add: loop_sleep)
    qed
  qed
qed

lemma loop_failed:
  assumes "i \<le> n" and "n < polls (poll_loop E tid t i lg cs)"
    and "status_of (get_talks E tid n) = Some c"
    and "c = JStr ''failed'' \<or> c = JStr ''error''"
  shows "polls (poll_loop E tid t i lg cs) = Suc n
     \<and> raised (poll_loop E tid t i lg cs) = None
     \<and> yields (poll_loop E tid t i lg cs) \<noteq> []
     \<and> (\<exists>lg'. last (yields (poll_loop E tid t i lg cs)) = final_update E tid c lg')"
  using assms
proof (induction E tid t i lg cs rule: poll_loop.induct)
  case (1 E tid t i lg cs)
  show ?case
  proof (cases "t < ms timeout")
    case False
    with "1.prems" show ?thesis by (simp add: loop_expired split: option.splits)
  next
    case True
    show ?thesis
    proof (cases "poll_step E tid i lg")
      case (Raised us e)
      with True "1.prems" have "n = i" by (simp add: loop_raised)
      with step_raised [OF Raised] status_no_failure [OF "1.prems"(3)] "1.prems" show ?thesis
        by auto
    next
      case (Returned us)
      with True "1.prems" have "n = i" by (simp add: loop_returned)
      with step_returned [OF Returned] "1.prems" show ?thesis by auto
    next
      case (Break u c' lg')
      with True "1.prems" have "n = i" by (simp add: loop_break)
      with step_break [OF Break] "1.prems" True Break show ?thesis
        by (auto simp: loop_break)
    next
      case (Sleep u c' lg')
      have "n \<noteq> i" using step_sleep [OF Sleep] "1.prems" by auto
      with "1.prems" have "Suc i \<le> n" by simp
      with "1.IH" [OF True Sleep] "1.prems" True Sleep show ?thesis
        by (simp add: loop_sleep)
    qed
  qed
qed

lemma loop_failure:
  assumes "i \<le> n" and "n < polls (poll_loop E tid t i lg cs)"
    and "failure_of (get_talks E tid n) = Some e"
  shows "polls (poll_loop E tid t i lg cs) = Suc n
     \<and> raised (poll_loop E tid t i lg cs) = Some e"
  using assms
proof (induction E tid t i lg cs rule: poll_loop.induct)
  case (1 E tid t i lg cs)
  show ?case
  proof (cases "t < ms timeout")
    case False
    with "1.prems" show ?thesis by (simp add: loop_expired split: option.splits)
  next
    case True
    show ?thesis
    proof (cases "n = i")
      case here: True
      with "1.prems" have "poll_step E tid i lg = Raised [] e" by (simp add: step_failure)
      with True here show ?thesis by (simp add: loop_raised)
    next
      case False
      with "1.prems" have later: "Suc i \<le> n" by simp
      show ?thesis
      proof (cases "poll_step E tid i lg")
        case (Sleep u c' lg')
        with "1.IH" [OF True Sleep] later "1.prems" True show ?thesis
          by (simp add: loop_sleep)
      qed (use True later "1.prems" in \<open>simp_all add: loop_raised loop_returned loop_break\<close>)
    qed
  qed
qed

lemma loop_started:
  assumes "\<forall>j. i \<le> j \<and> j < polls (poll_loop E tid t i lg cs)
             \<longrightarrow> status_of (get_talks E tid j) = Some (JStr ''started'')"
    and "t < ms timeout \<or> cs = Some (JStr ''started'')"
  shows "raised (poll_loop E tid t i lg cs) = None
     \<and> yields (poll_loop E tid t i lg cs) \<noteq> []
     \<and> ms timeout \<le> finish (poll_loop E tid t i lg cs)
     \<and> (\<exists>lg'. last (yields (poll_loop E tid t i lg cs))
                = final_update E tid (JStr ''started'') lg')"
  using assms
proof (induction E tid t i lg cs rule: poll_loop.induct)
  case (1 E tid t i lg cs)
  show ?case
  proof (cases "t < ms timeout")
    case False
    with "1.prems" show ?thesis by (auto simp: loop_expired)
  next
    case True
    have here: "status_of (get_talks E tid i) = Some (JStr ''started'')"
      if "i < polls (poll_loop E tid t i lg cs)"
      using "1.prems"(1) that by simp
    show ?thesis
    proof (cases "poll_step E tid i lg")
      case (Raised us e)
      with True have "status_of (get_talks E tid i) = Some (JStr ''started'')"
        by (simp add: here loop_raised)
      with step_raised [OF Raised] status_no_failure [OF this] show ?thesis by auto
    next
      case (Returned us)
      with here True step_returned [OF Returned] show ?thesis
        by (simp add: loop_returned)
    next
      case (Break u c lg')
      with here True step_break [OF Break] show ?thesis
        by (auto simp: loop_break)
    next
      case (Sleep u c lg')
      let ?r = "poll_loop E tid (t + lag E i + ms poll_interval) (Suc i) lg' (Some c)"
      have eq: "poll_loop E tid t i lg cs = ?r\<lparr>yields := u # yields ?r\<rparr>"
        using True Sleep by (rule loop_sleep)
      have "Suc i \<le> polls ?r" by (rule polls_ge)
      with eq here step_sleep [OF Sleep] have c: "c = JStr ''started''" by simp
      have "\<forall>j. Suc i \<le> j \<and> j < polls ?r
              \<longrightarrow> status_of (get_talks E tid j) = Some (JStr ''started'')"
        using "1.prems"(1) eq by simp
      with "1.IH" [OF True Sleep] c eq show ?thesis by simp
    qed
  qed
qed

lemma polls_le:
  "ms poll_interval * i \<le> t \<Longrightarrow> polls (poll_loop E tid t i lg cs) \<le> max i 150"
proof (induction E tid t i lg cs rule: poll_loop.induct)
  case (1 E tid t i lg cs)
  show ?case
  proof (cases "t < ms timeout")
    case False
    then show ?thesis by (simp add: loop_expired split: option.splits)
  next
    case True
    with "1.prems" have i: "i < 150"
      by (simp add: ms_def timeout_def poll_interval_def)
    show ?thesis
    proof (cases "poll_step E tid i lg")
      case (Sleep u c lg')
      have "ms poll_interval * Suc i \<le> t + lag E i + ms poll_interval"
        using "1.prems" by simp
      from "1.IH" [OF True Sleep this] True Sleep i show ?thesis
        by (simp add: loop_sleep)
    qed (use True i in \<open>simp_all add: loop_raised loop_returned loop_break\<close>)
  qed
qed

lemma finish_bound:
  assumes "\<forall>j. lag E j \<le> L" and "t < ms (timeout + poll_interval) + L"
  shows "finish (poll_loop E tid t i lg cs) < ms (timeout + poll_interval) + L"
  using assms
proof (induction E tid t i lg cs rule: poll_loop.induct)
  case (1 E tid t i lg cs)
  show ?case
  proof (cases "t < ms timeout")
    case False
    with "1.prems" show ?thesis by (simp add: loop_expired split: option.splits)
  next
    case True
    have lag: "lag E i \<le> L" using "1.prems" by simp
    with True have now: "t + lag E i < ms (timeout + poll_interval) + L"
      by (simp add: ms_def)
    show ?thesis
    proof (cases "poll_step E tid i lg")
      case (Sleep u c lg')
      have "t + lag E i + ms poll_interval < ms (timeout + poll_interval) + L"
        using True lag by (simp add: ms_def)
      from "1.IH" [OF True Sleep "1.prems"(1) this] True Sleep show ?thesis
        by (simp add: loop_sleep)
    qed (use True now in \<open>simp_all add: loop_raised loop_returned loop_break\<close>)
  qed
qed

lemma final_terminal: "terminal (final_update E tid c lg)"
  by (simp add: terminal_def final_update_def)

lemma success_terminal: "terminal (success_update tid url lg)"
  by (simp add: terminal_def success_update_def)

lemma loop_terminal:
  "filter terminal (yields (poll_loop E tid t i lg cs))
     = (if raised (poll_loop E tid t i lg cs) = None
        then [last (yields (poll_loop E tid t i lg cs))] else [])
   \<and> (raised (poll_loop E tid t i lg cs) = None \<longrightarrow> yields (poll_loop E tid t i lg cs) \<noteq> [])"
proof (induction E tid t i lg cs rule: poll_loop.induct)
  case (1 E tid t i lg cs)
  show ?case
  proof (cases "t < ms timeout")
    case False
    then show ?thesis by (simp add: loop_expired final_terminal split: option.splits)
  next
    case True
    show ?thesis
    proof (cases "poll_step E tid i lg")
      case (Raised us e)
      with True step_raised [OF Raised] show ?thesis by (auto simp: loop_raised)
    next
      case (Returned us)
      with True step_returned [OF Returned] show ?thesis
        by (auto simp: loop_returned success_terminal)
    next
      case (Break u c lg')
      with True step_break [OF Break] show ?thesis
        by (simp add: loop_break final_terminal)
    next
      case (Sleep u c lg')
      with "1.IH" [OF True Sleep] True step_sleep [OF Sleep] show ?thesis
        by (simp add: loop_sleep)
    qed
  qed
qed

section \<open>Properties of a run of \<^verbatim>\<open>create_talk\<close>\<close>

lemma create_talk_fields:
  "polls (create_talk E args) = polls (talk_body E args)"
  "finish (create_talk E args) = finish (talk_body E args)"
  "raised (create_talk E args) = None"
  "yields (create_talk E args) =
     yields (talk_body E args)
     @ (case raised (talk_body E args) of None \<Rightarrow> [] | Some e \<Rightarrow> [error_update e])"
  by (simp_all add: create_talk_def Let_def split: option.splits)

lemma submitted_body:
  "submitted E args tid \<Longrightarrow> \<exists>lg. talk_body E args = poll_loop E tid 0 0 lg None"
  by (auto simp: submitted_def talk_body_def Let_def split: sum.splits json.splits)

lemma body_shapes:
  "(\<exists>tid lg. talk_body E args = poll_loop E tid 0 0 lg None)
   \<or> talk_body E args = \<lparr>yields = [no_key_update], raised = None, polls = 0, finish = 0\<rparr>
   \<or> (\<exists>lg. talk_body E args
            = \<lparr>yields = [failed_update lg], raised = None, polls = 0, finish = 0\<rparr>)
   \<or> (\<exists>e. talk_body E args = \<lparr>yields = [], raised = Some e, polls = 0, finish = 0\<rparr>)"
  by (auto simp: talk_body_def Let_def split: sum.splits json.splits)

lemma other_terminal:
  "terminal no_key_update" "terminal (failed_update lg)" "terminal (error_update e)"
  by (simp_all add: terminal_def no_key_update_def failed_update_def error_update_def)

lemma body_terminal:
  "filter terminal (yields (talk_body E args))
     = (if raised (talk_body E args) = None then [last (yields (talk_body E args))] else [])
   \<and> (raised (talk_body E args) = None \<longrightarrow> yields (talk_body E args) \<noteq> [])"
  using body_shapes [of E args] loop_terminal
  by (elim disjE exE) (simp_all add: other_terminal)

lemma body_polls: "polls (talk_body E args) \<le> 150"
  using body_shapes [of E args] polls_le [of 0 0]
  by (elim disjE exE) simp_all

lemma body_finish:
  assumes "\<forall>j. lag E j \<le> L"
  shows "finish (talk_body E args) < ms (timeout + poll_interval) + L"
proof -
  have pos: "0 < ms (timeout + poll_interval) + L"
    by (simp add: ms_def timeout_def)
  from body_shapes [of E args] finish_bound [OF assms pos] pos show ?thesis
    by (elim disjE exE) simp_all
qed

lemma body_failure:
  assumes "truthy (API_KEY (globals E))" and "build_payload args = Inr payload"
    and "failure_of (post_talks E payload) = Some e"
  shows "talk_body E args = \<lparr>yields = [], raised = Some e, polls = 0, finish = 0\<rparr>"
  using assms by (auto simp: talk_body_def failure_of_def Let_def split: sum.splits json.splits)

lemmas payload_defs =
  build_payload_def script_dict_def provider_dict_def config_dict_def opt_entry_def drop_none_def

lemmas run_defs =
  create_talk_def talk_body_def payload_defs example_args_def example_env_def created_def
  answer_def answer_done_def dict_get_def poll_step_def poll_loop.simps ms_def timeout_def
  poll_interval_def submitted_def status_of_def url_of_def failure_of_def format_def
  status_update_def success_update_def final_update_def failed_update_def error_update_def
  error_msg_def nl_def Let_def

subsection \<open>Statuses that end the polling\<close>

text \<open>
  The statuses \<^verbatim>\<open>failed\<close> and \<^verbatim>\<open>error\<close> end the polling: when the \<open>n\<close>-th answer
  of \<^verbatim>\<open>get_talk\<close> in a run reports one of them, that call is the last one of the run,
  and the run ends with the update whose status is \<^verbatim>\<open>Processing timed out or failed\<close>
  followed by that status.
\<close>

lemma failed_or_error_stops_polling:
  assumes "submitted E args tid" and "n < polls (create_talk E args)"
    and "status_of (get_talks E tid n) = Some (JStr s)" and "s = ''failed'' \<or> s = ''error''"
  shows "polls (create_talk E args) = Suc n
     \<and> status (last (yields (create_talk E args)))
       = ''Processing timed out or failed (status: '' @ s @ '')''"
proof -
  from assms(1) obtain lg where b: "talk_body E args = poll_loop E tid 0 0 lg None"
    using submitted_body by blast
  from assms(4) have c: "JStr s = JStr ''failed'' \<or> JStr s = JStr ''error''" by simp
  from assms(2) have "n < polls (poll_loop E tid 0 0 lg None)"
    by (simp add: create_talk_fields b)
  from loop_failed [OF _ this assms(3) c] b show ?thesis
    by (auto simp: create_talk_fields final_update_def format_def)
qed

text \<open>
  The status \<^verbatim>\<open>rejected\<close> does not: the test in the source is
  \<^verbatim>\<open>current_status in ["failed", "error"]\<close>, so a pass that sees \<^verbatim>\<open>rejected\<close> goes
  to sleep like one that sees \<^verbatim>\<open>created\<close>. After an answer \<^verbatim>\<open>rejected\<close> either
  \<^verbatim>\<open>get_talk\<close> is called again, or the run has reached the deadline and ends there,
  with the text of the timeout.
\<close>

lemma rejected_is_not_final:
  assumes "i \<le> n" and "n < polls (poll_loop E tid t i lg cs)"
    and "status_of (get_talks E tid n) = Some (JStr ''rejected'')"
  shows "Suc n < polls (poll_loop E tid t i lg cs)
     \<or> polls (poll_loop E tid t i lg cs) = Suc n
       \<and> raised (poll_loop E tid t i lg cs) = None
       \<and> ms timeout \<le> finish (poll_loop E tid t i lg cs)
       \<and> (\<exists>lg'. yields (poll_loop E tid t i lg cs) \<noteq> []
              \<and> last (yields (poll_loop E tid t i lg cs))
                = final_update E tid (JStr ''rejected'') lg')"
  using assms
proof (induction E tid t i lg cs rule: poll_loop.induct)
  case (1 E tid t i lg cs)
  show ?case
  proof (cases "t < ms timeout")
    case False
    with "1.prems" show ?thesis by (simp add: loop_expired split: option.splits)
  next
    case True
    show ?thesis
    proof (cases "poll_step E tid i lg")
      case (Raised us e)
      with True "1.prems" have "n = i" by (simp add: loop_raised)
      with step_raised [OF Raised] status_no_failure [OF "1.prems"(3)] "1.prems" show ?thesis
        by auto
    next
      case (Returned us)
      with True "1.prems" have "n = i" by (simp add: loop_returned)
      with step_returned [OF Returned] "1.prems" show ?thesis by auto
    next
      case (Break u c lg')
      with True "1.prems" have "n = i" by (simp add: loop_break)
      with step_break [OF Break] "1.prems" show ?thesis by auto
    next
      case (Sleep u c lg')
      let ?t = "t + lag E i + ms poll_interval"
      let ?r = "poll_loop E tid ?t (Suc i) lg' (Some c)"
      have eq: "poll_loop E tid t i lg cs = ?r\<lparr>yields := u # yields ?r\<rparr>"
        using True Sleep by (rule loop_sleep)
      show ?thesis
      proof (cases "n = i")
        case False
        with "1.prems" have "Suc i \<le> n" by simp
        with "1.IH" [OF True Sleep] "1.prems" eq show ?thesis by auto
      next
        case here: True
        with step_sleep [OF Sleep] "1.prems" have c: "c = JStr ''rejected''" by simp
        show ?thesis
        proof (cases "?t < ms timeout")
          case again: True
          have "Suc (Suc i) \<le> polls ?r"
            by (cases "poll_step E tid (Suc i) lg'")
               (use again polls_ge [of "Suc (Suc i)" E tid] in
                 \<open>auto simp: loop_raised loop_returned loop_break loop_sleep\<close>)
          with eq here show ?thesis by simp
        next
          case False
          with eq here c show ?thesis by (auto simp: loop_expired)
        qed
      qed
    qed
  qed
qed

lemma rejected_polls_again:
  assumes "submitted E args tid" and "n < polls (create_talk E args)"
    and "status_of (get_talks E tid n) = Some (JStr ''rejected'')"
  shows "Suc n < polls (create_talk E args)
     \<or> polls (create_talk E args) = Suc n
       \<and> ms timeout \<le> finish (create_talk E args)
       \<and> status (last (yields (create_talk E args)))
         = ''Processing timed out or failed (status: rejected)''"
proof -
  from assms(1) obtain lg where b: "talk_body E args = poll_loop E tid 0 0 lg None"
    using submitted_body by blast
  from assms(2) have "n < polls (poll_loop E tid 0 0 lg None)"
    by (simp add: create_talk_fields b)
  from rejected_is_not_final [OF _ this assms(3)] b show ?thesis
    by (auto simp: create_talk_fields final_update_def format_def)
qed

text \<open>
  C1. A poll response whose status is one of error, failed, rejected is to stop the
  poller and end the run as failed. The code does so for \<^verbatim>\<open>failed\<close> and \<^verbatim>\<open>error\<close> and
  misses \<^verbatim>\<open>rejected\<close>. Here \<^verbatim>\<open>get_talk\<close> answers \<^verbatim>\<open>rejected\<close> every time and takes
  148 seconds to do so: after the first answer the handler sleeps and calls
  \<^verbatim>\<open>get_talk\<close> a second time, and the run ends only when the 300 seconds are over,
  with the text of the timeout.
\<close>

theorem rejected_keeps_polling:
  "status_of (get_talks (example_env created [answer ''rejected''] 148000) (JStr ''tlk_1'') 0)
     = Some (JStr ''rejected'')
   \<and> polls (create_talk (example_env created [answer ''rejected''] 148000) example_args) = 2
   \<and> map status (yields (create_talk (example_env created [answer ''rejected''] 148000)
        example_args))
       = [''Status: rejected'', ''Status: rejected'',
          ''Processing timed out or failed (status: rejected)'']
   \<and> finish (create_talk (example_env created [answer ''rejected''] 148000) example_args)
       = ms timeout"
  by (simp add: run_defs)

subsection \<open>An answer without an id\<close>

text \<open>
  C3. When \<^verbatim>\<open>client.create_talk\<close> answers with a dict that has no \<^verbatim>\<open>id\<close> (the client
  is declared to return a \<^verbatim>\<open>Dict\<close>), the generator yields exactly one update: its
  status is \<^verbatim>\<open>Failed\<close>, its log is \<^verbatim>\<open>Creation Response:\<close> and, on the next line, the
  answer as \<^verbatim>\<open>json.dumps(talk, indent=2)\<close> prints it, and its other outputs are empty.
  \<^verbatim>\<open>get_talk\<close> is never called. An answer that is not a dict is a malformed
  response: \<^verbatim>\<open>.get\<close> raises, and the run ends with the update \<^verbatim>\<open>Error\<close>, as every
  failure does.
\<close>

theorem no_id_fails:
  assumes "truthy (API_KEY (globals E))" and "build_payload args = Inr payload"
    and "post_talks E payload = Inr (JObj kvs)" and "map_of kvs ''id'' = None"
  shows "yields (create_talk E args)
       = [\<lparr>talk_id = JStr '''', status = ''Failed'', result_url = JStr '''',
           video_preview = Video None False, download_status = '''',
           api_logs = ''Creation Response:'' @ nl @ json_dumps E (JObj kvs)\<rparr>]
     \<and> polls (create_talk E args) = 0"
  using assms by (simp add: create_talk_def talk_body_def dict_get_def failed_update_def)

lemma build_example_payload: "build_payload example_args = Inr example_payload"
  by (simp add: payload_defs example_args_def example_payload_def)

lemmas dumps_defs = str_repr_def escape_def indent_def nl_def unauthorized_text_def

text \<open>The service answers with a message and no id; the log is the text Python prints.\<close>

theorem no_id_fails_witness:
  "truthy (API_KEY (globals (example_env (Inr (JObj [(''message'', JStr ''Unauthorized'')])) [] 0)))
   \<and> map_of [(''message'', JStr ''Unauthorized'')] ''id'' = None
   \<and> map status (yields (create_talk
        (example_env (Inr (JObj [(''message'', JStr ''Unauthorized'')])) [] 0) example_args))
       = [''Failed'']
   \<and> map api_logs (yields (create_talk
        (example_env (Inr (JObj [(''message'', JStr ''Unauthorized'')])) [] 0) example_args))
       = [''Creation Response:'' @ nl @ unauthorized_text]
   \<and> polls (create_talk (example_env (Inr (JObj [(''message'', JStr ''Unauthorized'')])) [] 0)
        example_args) = 0"
proof -
  let ?E = "example_env (Inr (JObj [(''message'', JStr ''Unauthorized'')])) [] 0"
  have h1: "truthy (API_KEY (globals ?E))" by (simp add: example_env_def)
  have h3: "post_talks ?E example_payload = Inr (JObj [(''message'', JStr ''Unauthorized'')])"
    by (simp add: example_env_def)
  have h4: "map_of [(''message'', JStr ''Unauthorized'')] ''id'' = None" by simp
  have d: "json_dumps ?E (JObj [(''message'', JStr ''Unauthorized'')]) = unauthorized_text"
    by (simp add: example_env_def dumps_defs)
  from no_id_fails [OF h1 build_example_payload h3 h4] h1 h4 d show ?thesis
    by simp
qed

subsection \<open>Success\<close>

text \<open>
  C4, as the code has it. When the \<open>n\<close>-th answer of \<^verbatim>\<open>get_talk\<close> in a run reports the
  status \<^verbatim>\<open>done\<close> and carries a result url (a value that Python takes as true), that
  call of \<^verbatim>\<open>get_talk\<close> is the last one. The handler then builds
  \<^verbatim>\<open>gr.Video(value=result_url, visible=True)\<close> for the closing update, inside the
  \<^verbatim>\<open>try\<close>. When that raises nothing, the last update of the run has the status
  \<^verbatim>\<open>Completed successfully\<close> and carries exactly that url, also as the value of the
  video shown. When it raises, the run ends with the update \<^verbatim>\<open>Error\<close> of that
  exception, whose result url is empty.
\<close>

theorem done_with_url_ends_polling:
  assumes "submitted E args tid" and "n < polls (create_talk E args)"
    and "status_of (get_talks E tid n) = Some (JStr ''done'')"
    and "truthy (url_of (get_talks E tid n))"
  shows "polls (create_talk E args) = Suc n
     \<and> (video_error E (url_of (get_talks E tid n)) = None \<longrightarrow>
          status (last (yields (create_talk E args))) = ''Completed successfully''
          \<and> result_url (last (yields (create_talk E args))) = url_of (get_talks E tid n)
          \<and> video_preview (last (yields (create_talk E args)))
            = Video (Some (url_of (get_talks E tid n))) True)
     \<and> (\<forall>e. video_error E (url_of (get_talks E tid n)) = Some e \<longrightarrow>
          last (yields (create_talk E args))
            = \<lparr>talk_id = JStr '''', status = ''Error'', result_url = JStr '''',
               video_preview = Video None False, download_status = '''',
               api_logs = error_msg e\<rparr>)"
proof -
  from assms(1) obtain lg where b: "talk_body E args = poll_loop E tid 0 0 lg None"
    using submitted_body by blast
  from assms(2) have "n < polls (poll_loop E tid 0 0 lg None)"
    by (simp add: create_talk_fields b)
  from loop_done [OF _ this assms(3,4)] b show ?thesis
    by (auto simp: create_talk_fields success_update_def error_update_def)
qed

text \<open>
  The answers \<^verbatim>\<open>created\<close>, \<^verbatim>\<open>started\<close>, \<^verbatim>\<open>done\<close>, and a video that can be built: three
  calls, four updates.
\<close>

theorem done_with_url_ends_polling_witness:
  "submitted (example_env created [answer ''created'', answer ''started'', answer_done] 0)
     example_args (JStr ''tlk_1'')
   \<and> video_error (example_env created [answer ''created'', answer ''started'', answer_done] 0)
        (JStr ''https://x/out.mp4'') = None
   \<and> polls (create_talk
        (example_env created [answer ''created'', answer ''started'', answer_done] 0)
        example_args) = 3
   \<and> map status (yields (create_talk
        (example_env created [answer ''created'', answer ''started'', answer_done] 0)
        example_args))
       = [''Status: created'', ''Status: started'', ''Status: done'', ''Completed successfully'']
   \<and> result_url (last (yields (create_talk
        (example_env created [answer ''created'', answer ''started'', answer_done] 0)
        example_args))) = JStr ''https://x/out.mp4''"
proof -
  let ?E = "example_env created [answer ''created'', answer ''started'', answer_done] 0"
  have h1: "submitted ?E example_args (JStr ''tlk_1'')" by (simp add: run_defs)
  have h2: "2 < polls (create_talk ?E example_args)" by (simp add: run_defs)
  have h3: "status_of (get_talks ?E (JStr ''tlk_1'') 2) = Some (JStr ''done'')"
    by (simp add: run_defs)
  have h4: "truthy (url_of (get_talks ?E (JStr ''tlk_1'') 2))" by (simp add: run_defs)
  have u: "url_of (get_talks ?E (JStr ''tlk_1'') 2) = JStr ''https://x/out.mp4''"
    by (simp add: run_defs)
  have v: "video_error ?E (JStr ''https://x/out.mp4'') = None" by (simp add: example_env_def)
  have m: "map status (yields (create_talk ?E example_args))
       = [''Status: created'', ''Status: started'', ''Status: done'', ''Completed successfully'']"
    by (simp add: run_defs)
  from done_with_url_ends_polling [OF h1 h2 h3 h4] h1 u v m show ?thesis by simp
qed

text \<open>
  The same answers, and a video component that cannot fetch the url: the third answer
  reports \<^verbatim>\<open>done\<close> with the result url, and the run ends with the status \<^verbatim>\<open>Error\<close>
  and an empty result url.
\<close>

theorem unbuilt_video_ends_in_error:
  "status_of (get_talks
      ((example_env created [answer ''created'', answer ''started'', answer_done] 0)
         \<lparr>video_error := (\<lambda>url. Some (Exn ''Name or service not known'' None))\<rparr>)
      (JStr ''tlk_1'') 2) = Some (JStr ''done'')
   \<and> url_of (get_talks
      ((example_env created [answer ''created'', answer ''started'', answer_done] 0)
         \<lparr>video_error := (\<lambda>url. Some (Exn ''Name or service not known'' None))\<rparr>)
      (JStr ''tlk_1'') 2) = JStr ''https://x/out.mp4''
   \<and> map status (yields (create_talk
      ((example_env created [answer ''created'', answer ''started'', answer_done] 0)
         \<lparr>video_error := (\<lambda>url. Some (Exn ''Name or service not known'' None))\<rparr>)
      example_args))
       = [''Status: created'', ''Status: started'', ''Status: done'', ''Error'']
   \<and> result_url (last (yields (create_talk
      ((example_env created [answer ''created'', answer ''started'', answer_done] 0)
         \<lparr>video_error := (\<lambda>url. Some (Exn ''Name or service not known'' None))\<rparr>)
      example_args))) = JStr ''''"
  by (simp add: run_defs)

subsection \<open>Timeout\<close>

text \<open>
  C5. When every answer of \<^verbatim>\<open>get_talk\<close> in a run reports the status \<^verbatim>\<open>started\<close>, the
  run ends, at or after the deadline of 300 seconds, with an update for the job whose
  status text is \<^verbatim>\<open>Processing timed out or failed (status: started)\<close>: it names the
  timeout and the last status seen.
\<close>

theorem always_started_times_out:
  assumes "submitted E args tid"
    and "\<forall>j < polls (create_talk E args). status_of (get_talks E tid j) = Some (JStr ''started'')"
  shows "status (last (yields (create_talk E args)))
       = ''Processing timed out or failed (status: started)''
     \<and> talk_id (last (yields (create_talk E args))) = tid
     \<and> ms timeout \<le> finish (create_talk E args)"
proof -
  from assms(1) obtain lg where b: "talk_body E args = poll_loop E tid 0 0 lg None"
    using submitted_body by blast
  have "\<forall>j. 0 \<le> j \<and> j < polls (poll_loop E tid 0 0 lg None)
          \<longrightarrow> status_of (get_talks E tid j) = Some (JStr ''started'')"
    using assms(2) by (simp add: create_talk_fields b)
  moreover have "0 < ms timeout \<or> (None :: json option) = Some (JStr ''started'')"
    by (simp add: ms_def timeout_def)
  ultimately show ?thesis using loop_started [of 0 E tid 0 lg None] b
    by (auto simp: create_talk_fields final_update_def format_def)
qed

theorem always_started_times_out_witness:
  "submitted (example_env created [answer ''started''] 0) example_args (JStr ''tlk_1'')
   \<and> status_of (get_talks (example_env created [answer ''started''] 0) (JStr ''tlk_1'') 0)
       = Some (JStr ''started'')
   \<and> status (last (yields (create_talk (example_env created [answer ''started''] 0)
        example_args))) = ''Processing timed out or failed (status: started)''
   \<and> ms timeout \<le> finish (create_talk (example_env created [answer ''started''] 0) example_args)"
proof -
  let ?E = "example_env created [answer ''started''] 0"
  have h1: "submitted ?E example_args (JStr ''tlk_1'')" by (simp add: run_defs)
  have h2: "\<forall>j < polls (create_talk ?E example_args).
              status_of (get_talks ?E (JStr ''tlk_1'') j) = Some (JStr ''started'')"
    by (simp add: example_env_def answer_def status_of_def dict_get_def)
  have h0: "status_of (get_talks ?E (JStr ''tlk_1'') 0) = Some (JStr ''started'')"
    by (simp add: example_env_def answer_def status_of_def dict_get_def)
  from always_started_times_out [OF h1 h2] h1 h0 show ?thesis by simp
qed

subsection \<open>One end for every run\<close>

text \<open>
  C6, as the code has it. Every run of the generator ends: it yields at least one
  update, exactly one of its updates has one of the five closing status texts, and that
  one is the last; it calls \<^verbatim>\<open>get_talk\<close> at most 150 times. The closing texts are
  those of the five last \<^verbatim>\<open>yield\<close>s of the source, where a timeout and a failed job
  share the text \<^verbatim>\<open>Processing timed out or failed\<close>. The elapsed time is tested only
  at the head of the loop, and \<^verbatim>\<open>get_talk\<close> is sent without a timeout: when no
  iteration takes more than \<open>L\<close> milliseconds besides its sleep, the run ends less than
  \<open>L\<close> milliseconds past the deadline plus one poll interval.
\<close>

theorem run_ends_once:
  assumes "\<forall>j. lag E j \<le> L"
  shows "yields (create_talk E args) \<noteq> []
     \<and> filter terminal (yields (create_talk E args)) = [last (yields (create_talk E args))]
     \<and> polls (create_talk E args) \<le> 150
     \<and> finish (create_talk E args) < ms (timeout + poll_interval) + L"
  using body_terminal [of E args] body_polls [of E args] body_finish [OF assms, of args]
  by (simp add: create_talk_fields other_terminal split: option.splits)

theorem run_ends_once_witness:
  "(\<forall>j. lag (example_env created [answer ''created'', answer_done] 0) j \<le> 0)
   \<and> polls (create_talk (example_env created [answer ''created'', answer_done] 0) example_args)
       \<le> 150
   \<and> finish (create_talk (example_env created [answer ''created'', answer_done] 0) example_args)
       < ms (timeout + poll_interval) + 0"
proof -
  let ?E = "example_env created [answer ''created'', answer_done] 0"
  have h: "\<forall>j. lag ?E j \<le> 0" by (simp add: example_env_def)
  from run_ends_once [OF h, of example_args] h show ?thesis by simp
qed

text \<open>
  A first \<^verbatim>\<open>get_talk\<close> that takes 400 seconds to answer \<^verbatim>\<open>started\<close>: the run ends 402
  seconds after \<^verbatim>\<open>start_time\<close>, past the deadline plus one poll interval.
\<close>

theorem slow_poll_overruns:
  "\<not> finish (create_talk (example_env created [answer ''started''] 400000) example_args)
       \<le> ms (timeout + poll_interval)"
  by (simp add: run_defs)

subsection \<open>Failures become updates\<close>

text \<open>
  C9. Whatever fails while the job is submitted or polled (an exception of the client,
  which stands for a transport error, a status of 400 or more, or a body that is not
  JSON, or an answer that is not a dict), the generator raises nothing: the failure of
  \<^verbatim>\<open>create_talk\<close>, or of the \<open>n\<close>-th \<^verbatim>\<open>get_talk\<close> of the run, ends the run with the
  update \<^verbatim>\<open>Error\<close> that carries the message of the exception.
\<close>

theorem failures_become_updates:
  assumes "truthy (API_KEY (globals E))" and "build_payload args = Inr payload"
    and "failure_of (post_talks E payload) = Some e
       \<or> (\<exists>tid n. submitted E args tid \<and> n < polls (create_talk E args)
                  \<and> failure_of (get_talks E tid n) = Some e)"
  shows "raised (create_talk E args) = None
     \<and> yields (create_talk E args) \<noteq> []
     \<and> last (yields (create_talk E args)) = error_update e"
  using assms(3)
proof
  assume "failure_of (post_talks E payload) = Some e"
  from body_failure [OF assms(1,2) this] show ?thesis
    by (simp add: create_talk_fields)
next
  assume "\<exists>tid n. submitted E args tid \<and> n < polls (create_talk E args)
                  \<and> failure_of (get_talks E tid n) = Some e"
  then obtain tid n where s: "submitted E args tid" and n: "n < polls (create_talk E args)"
    and f: "failure_of (get_talks E tid n) = Some e" by blast
  from s obtain lg where b: "talk_body E args = poll_loop E tid 0 0 lg None"
    using submitted_body by blast
  from n have "n < polls (poll_loop E tid 0 0 lg None)"
    by (simp add: create_talk_fields b)
  from loop_failure [OF _ this f] b show ?thesis
    by (simp add: create_talk_fields)
qed

text \<open>The connection breaks at the second \<^verbatim>\<open>get_talk\<close>.\<close>

theorem failures_become_updates_witness:
  "truthy (API_KEY (globals (example_env created
      [answer ''created'', Inl (Exn ''Connection reset by peer'' None)] 0)))
   \<and> build_payload example_args = Inr example_payload
   \<and> failure_of (get_talks (example_env created
        [answer ''created'', Inl (Exn ''Connection reset by peer'' None)] 0) (JStr ''tlk_1'') 1)
       = Some (Exn ''Connection reset by peer'' None)
   \<and> map status (yields (create_talk (example_env created
        [answer ''created'', Inl (Exn ''Connection reset by peer'' None)] 0) example_args))
       = [''Status: created'', ''Error'']
   \<and> last (yields (create_talk (example_env created
        [answer ''created'', Inl (Exn ''Connection reset by peer'' None)] 0) example_args))
       = error_update (Exn ''Connection reset by peer'' None)"
proof -
  let ?E = "example_env created [answer ''created'', Inl (Exn ''Connection reset by peer'' None)] 0"
  have h1: "truthy (API_KEY (globals ?E))" by (simp add: example_env_def)
  have s: "submitted ?E example_args (JStr ''tlk_1'')" by (simp add: run_defs)
  have n: "1 < polls (create_talk ?E example_args)" by (simp add: run_defs)
  have f: "failure_of (get_talks ?E (JStr ''tlk_1'') 1)
             = Some (Exn ''Connection reset by peer'' None)"
    by (simp add: run_defs)
  have m: "map status (yields (create_talk ?E example_args)) = [''Status: created'', ''Error'']"
    by (simp add: run_defs)
  have h3: "failure_of (post_talks ?E example_payload) = Some (Exn ''Connection reset by peer'' None)
       \<or> (\<exists>tid n. submitted ?E example_args tid \<and> n < polls (create_talk ?E example_args)
                  \<and> failure_of (get_talks ?E tid n) = Some (Exn ''Connection reset by peer'' None))"
    using s n f by blast
  from failures_become_updates [OF h1 build_example_payload h3] h1 build_example_payload f m
  show ?thesis by simp
qed

section \<open>Properties of the payload\<close>

text \<open>
  C2, as the code has it. For the twelve inputs of the form with the script type
  \<^verbatim>\<open>text\<close> or \<^verbatim>\<open>audio\<close>, the payload is built, and an optional input that is not set
  (an empty string, an unticked box) leaves no key: \<^verbatim>\<open>driver_url\<close>, and \<^verbatim>\<open>webhook\<close>,
  \<^verbatim>\<open>stitch\<close> and \<^verbatim>\<open>persist\<close> under \<^verbatim>\<open>config\<close>, are keys exactly when their input is
  set, and so is \<^verbatim>\<open>voice_config\<close> in the provider of a text script. A text script has
  no \<^verbatim>\<open>audio_url\<close>. An audio script has no \<^verbatim>\<open>provider\<close>, but it keeps the key
  \<^verbatim>\<open>input\<close>, with the empty string: the source writes \<^verbatim>\<open>""\<close> there, not \<^verbatim>\<open>None\<close>.
\<close>

theorem payload_omits_unset:
  assumes "length args = 12" and "args ! 1 = JStr ''text'' \<or> args ! 1 = JStr ''audio''"
  shows "\<exists>p. build_payload args = Inr p
     \<and> (lookup p [''driver_url''] \<noteq> None \<longleftrightarrow> truthy (args ! 7))
     \<and> (lookup p [''config'', ''webhook''] \<noteq> None \<longleftrightarrow> truthy (args ! 8))
     \<and> (lookup p [''config'', ''stitch''] \<noteq> None \<longleftrightarrow> truthy (args ! 9))
     \<and> (lookup p [''config'', ''persist''] \<noteq> None \<longleftrightarrow> truthy (args ! 10))
     \<and> (args ! 1 = JStr ''text'' \<longrightarrow>
          lookup p [''script'', ''audio_url''] = None
          \<and> (lookup p [''script'', ''provider'', ''voice_config''] \<noteq> None
              \<longleftrightarrow> truthy (args ! 6)))
     \<and> (args ! 1 = JStr ''audio'' \<longrightarrow>
          lookup p [''script'', ''provider''] = None
          \<and> lookup p [''script'', ''input''] = Some (JStr ''''))"
  using assms by (auto simp: payload_defs)

theorem payload_omits_unset_witness:
  "length example_args = 12 \<and> example_args ! 1 = JStr ''text''
   \<and> (\<exists>p. build_payload example_args = Inr p
        \<and> lookup p [''driver_url''] = None
        \<and> lookup p [''config'', ''webhook''] = None
        \<and> lookup p [''config'', ''stitch''] = None
        \<and> lookup p [''config'', ''persist''] = None
        \<and> lookup p [''script'', ''audio_url''] = None
        \<and> lookup p [''script'', ''provider'', ''voice_config''] = None)"
proof -
  have h1: "length example_args = 12" by (simp add: example_args_def)
  have h2: "example_args ! 1 = JStr ''text''" by (simp add: example_args_def)
  have unset: "\<not> truthy (example_args ! 6)" "\<not> truthy (example_args ! 7)"
    "\<not> truthy (example_args ! 8)" "\<not> truthy (example_args ! 9)" "\<not> truthy (example_args ! 10)"
    by (simp_all add: example_args_def)
  from h2 have h2': "example_args ! 1 = JStr ''text'' \<or> example_args ! 1 = JStr ''audio''" ..
  from payload_omits_unset [OF h1 h2'] h1 h2 unset show ?thesis by auto
qed

text \<open>
  An audio script whose optional inputs are all unset: \<^verbatim>\<open>input\<close>, a field of the text
  script, is in the payload with the empty string.
\<close>

theorem audio_payload_keeps_input:
  "build_payload
     [JStr ''https://x/a.jpg'', JStr ''audio'', JStr ''Hi'', JStr ''https://x/a.mp3'',
      JStr ''microsoft'', JStr ''en-US-JennyNeural'', JStr '''', JStr '''', JStr '''',
      JBool False, JBool False, JStr '''']
   = Inr (JObj
       [(''source_url'', JStr ''https://x/a.jpg''),
        (''script'',
         JObj [(''type'', JStr ''audio''), (''input'', JStr ''''),
               (''subtitles'', JStr ''false''), (''ssml'', JStr ''false''),
               (''audio_url'', JStr ''https://x/a.mp3'')]),
        (''config'', JObj [(''fluent'', JStr ''false'')])])"
  by (simp add: payload_defs)

text \<open>
  C10. Two calls of the handler whose twelve inputs differ at most in the last one, the
  External TTS Key, build the same payload, and against the same service and clock they
  are the same run: the same updates, the same calls of \<^verbatim>\<open>get_talk\<close>.
\<close>

theorem external_tts_ignored:
  assumes "length a = 12" and "length b = 12" and "take 11 a = take 11 b"
  shows "build_payload a = build_payload b \<and> create_talk E a = create_talk E b"
proof -
  have nth: "a ! i = b ! i" if "i < 11" for i
    using assms(3) that by (metis nth_take)
  have "provider_dict a = provider_dict b" "config_dict a = config_dict b"
    by (simp_all add: provider_dict_def config_dict_def nth)
  moreover from this have "script_dict a = script_dict b"
    by (simp add: script_dict_def nth)
  ultimately have "build_payload a = build_payload b"
    using assms(1,2) by (simp add: build_payload_def nth)
  then show ?thesis by (simp add: create_talk_def talk_body_def)
qed

theorem external_tts_ignored_witness:
  "length example_args = 12 \<and> length (example_args [11 := JStr ''secret'']) = 12
   \<and> example_args [11 := JStr ''secret''] \<noteq> example_args
   \<and> build_payload example_args = build_payload (example_args [11 := JStr ''secret''])
   \<and> create_talk (example_env created [answer_done] 0) example_args
       = create_talk (example_env created [answer_done] 0) (example_args [11 := JStr ''secret''])"
proof -
  have h1: "length example_args = 12" by (simp add: example_args_def)
  have h2: "length (example_args [11 := JStr ''secret'']) = 12" by (simp add: example_args_def)
  have h3: "take 11 example_args = take 11 (example_args [11 := JStr ''secret''])" by simp
  have d: "example_args [11 := JStr ''secret''] \<noteq> example_args"
    by (simp add: example_args_def)
  from external_tts_ignored [OF h1 h2 h3] h1 h2 d show ?thesis by simp
qed

section \<open>Properties of the result fetcher\<close>

text \<open>
  C7. When a download of an http(s) url fails inside the \<^verbatim>\<open>try\<close> block, at the
  request, at \<^verbatim>\<open>raise_for_status\<close>, at the header, at opening the file, in the middle
  of the stream or at a write, then no file is left under the name of the download and
  the function returns \<^verbatim>\<open>None\<close> with the message of the failure in place of a path.
  The directory could be made and \<^verbatim>\<open>os.remove\<close> does its work.
\<close>

theorem failed_download_leaves_no_file:
  assumes "startswith url ''http://'' \<or> startswith url ''https://''"
    and "makedirs_error H = None" and "remove_error H = None"
    and "fst (fetch H fs url) = Some e"
  shows "fst (download_video H fs url)
       = Inr (None, cross_mark @ '' Download failed: '' @ exn_str e)
     \<and> snd (download_video H fs url) (filename H) = None"
  using assms by (auto simp: download_video_def split: prod.splits option.splits)

text \<open>The connection is reset after the first chunk has been written.\<close>

theorem failed_download_leaves_no_file_witness:
  "startswith ''https://x/out.mp4'' ''https://''
   \<and> fetch (example_host [Inr ''abc'', Inl (Exn ''Connection reset by peer'' None)]) Map.empty
        ''https://x/out.mp4''
       = (Some (Exn ''Connection reset by peer'' None),
          [filename (example_host [Inr ''abc'', Inl (Exn ''Connection reset by peer'' None)])
             \<mapsto> ''abc''])
   \<and> fst (download_video (example_host [Inr ''abc'', Inl (Exn ''Connection reset by peer'' None)])
        Map.empty ''https://x/out.mp4'')
       = Inr (None, cross_mark @ '' Download failed: Connection reset by peer'')
   \<and> snd (download_video (example_host [Inr ''abc'', Inl (Exn ''Connection reset by peer'' None)])
        Map.empty ''https://x/out.mp4'')
        (filename (example_host [Inr ''abc'', Inl (Exn ''Connection reset by peer'' None)])) = None"
proof -
  let ?H = "example_host [Inr ''abc'', Inl (Exn ''Connection reset by peer'' None)]"
  have h1: "startswith ''https://x/out.mp4'' ''https://''" by (simp add: startswith_def)
  have h1': "startswith ''https://x/out.mp4'' ''http://'' \<or> startswith ''https://x/out.mp4'' ''https://''"
    using h1 ..
  have h2: "makedirs_error ?H = None" and h3: "remove_error ?H = None"
    by (simp_all add: example_host_def)
  have f: "fetch ?H Map.empty ''https://x/out.mp4''
         = (Some (Exn ''Connection reset by peer'' None), [filename ?H \<mapsto> ''abc''])"
    by (simp add: fetch_def example_host_def)
  then have h4: "fst (fetch ?H Map.empty ''https://x/out.mp4'')
         = Some (Exn ''Connection reset by peer'' None)" by simp
  from failed_download_leaves_no_file [OF h1' h2 h3 h4] h1 f show ?thesis by simp
qed

section \<open>Properties of the configuration file\<close>

text \<open>
  C8. For every key string and url string, when \<^verbatim>\<open>save_config_handler\<close> has written the
  file (\<^verbatim>\<open>open\<close> and \<^verbatim>\<open>json.dump\<close> did not fail), \<^verbatim>\<open>load_config\<close> returns the same
  pair of key and url, given that \<^verbatim>\<open>json.load\<close> reads back the text that \<^verbatim>\<open>json.dump\<close>
  writes for this pair. The two functions use the same path, and the handler also sets
  the globals to the pair.
\<close>

theorem save_then_load:
  assumes "open_write_error C = None" and "dump_error C = None"
    and "json_load C (json_dump C (JObj [(''key'', JStr key), (''url'', JStr url)]))
         = Inr (JObj [(''key'', JStr key), (''url'', JStr url)])"
  shows "load_config C (fst (snd (save_config_handler C (fs, g) key url)))
       = JObj [(''key'', JStr key), (''url'', JStr url)]
     \<and> snd (snd (save_config_handler C (fs, g) key url))
       = \<lparr>API_KEY = JStr key, BASE_URL = JStr url\<rparr>"
  using assms by (simp add: save_config_handler_def load_config_def)

theorem save_then_load_witness:
  "open_write_error example_io = None \<and> dump_error example_io = None
   \<and> json_load example_io
       (json_dump example_io (JObj [(''key'', JStr ''k1''), (''url'', JStr ''https://api.d-id.com'')]))
       = Inr (JObj [(''key'', JStr ''k1''), (''url'', JStr ''https://api.d-id.com'')])
   \<and> load_config example_io (fst (snd (save_config_handler example_io
        (Map.empty, \<lparr>API_KEY = JStr '''', BASE_URL = JStr ''https://api.d-id.com''\<rparr>)
        ''k1'' ''https://api.d-id.com'')))
       = JObj [(''key'', JStr ''k1''), (''url'', JStr ''https://api.d-id.com'')]"
proof -
  have h1: "open_write_error example_io = None" and h2: "dump_error example_io = None"
    by (simp_all add: example_io_def)
  have h3: "json_load example_io
       (json_dump example_io (JObj [(''key'', JStr ''k1''), (''url'', JStr ''https://api.d-id.com'')]))
       = Inr (JObj [(''key'', JStr ''k1''), (''url'', JStr ''https://api.d-id.com'')])"
    by (simp add: example_io_def)
  from save_then_load [OF h1 h2 h3] h1 h2 h3 show ?thesis by simp
qed

end
